theory Spec2Isabelle
  imports Main "HOL-Library.Word"
begin

section \<open>The tikky counter service: request handlers over a Redis client\<close>

text \<open>
  The Go package \<open>api\<close> has four HTTP handlers (\<open>WriteHandler\<close>, \<open>ReadHandler\<close>,
  \<open>HealthHandler\<close>, \<open>MetricsHandler\<close>) and two helpers (\<open>writeJSON\<close>,
  \<open>writeJSONError\<close>). Each handler is a method of \<open>Server\<close>, whose only field is the
  Redis client. The handlers are modelled as functions that take the server, the
  response writer, the request and the world outside the handler (the store behind the
  client, the commands sent to it, the log) and return the writer and the world as the
  handler leaves them.
\<close>

subsection \<open>Values, errors, requests\<close>

type_synonym int64 = "64 word"

text \<open>
  Go \<open>error\<close> values the handlers can meet: the sentinel \<open>redis.Nil\<close> (key absent), the
  \<open>*strconv.NumError\<close> of \<open>ParseInt\<close> (with the text that failed to parse), and any
  other error (network, timeout, server reply, broken connection) with its message.
\<close>

datatype num_err = ErrSyntax | ErrRange

datatype error = RedisNil | NumError string num_err | OtherError string

text \<open>The request's context, handed to every client call (\<open>r.Context()\<close>).\<close>

datatype Context = Background | Canceled | DeadlineExceeded

record Request =
  Method :: string
  URL :: string
  ReqHeader :: "(string \<times> string) list"
  ReqBody :: string
  Ctx :: Context

abbreviation MethodGet :: string where "MethodGet \<equiv> ''GET''"
abbreviation MethodPost :: string where "MethodPost \<equiv> ''POST''"

abbreviation StatusOK :: nat where "StatusOK \<equiv> 200"
abbreviation StatusMethodNotAllowed :: nat where "StatusMethodNotAllowed \<equiv> 405"
abbreviation StatusInternalServerError :: nat where "StatusInternalServerError \<equiv> 500"
abbreviation StatusServiceUnavailable :: nat where "StatusServiceUnavailable \<equiv> 503"

definition redisCounterKey :: string where
  "redisCounterKey = ''counter''"

subsection \<open>The response writer\<close>

text \<open>
  The values handed to \<open>writeJSON\<close> are Go maps: \<open>map[string]int64\<close> and
  \<open>map[string]string\<close>, written here with the entries of the source's literal.
  A body is the list of what was written to the connection: a JSON document (the value
  given to the encoder; its bytes are \<open>encoding/json\<close>'s) or raw bytes.
\<close>

datatype json = IntMap "(string \<times> int64) list" | StrMap "(string \<times> string) list"

datatype payload = JSON json | Bytes string

datatype rw_event =
    SetHeader string string
  | WroteHeader nat
  | Wrote payload
  | WriteFailed payload error

text \<open>
  \<open>http.ResponseWriter\<close>: the header map, the status code once committed by
  \<open>WriteHeader\<close>, the body written so far, and the connection (\<open>Some err\<close>: every
  write to it fails with \<open>err\<close>). \<open>trace\<close> records the calls made on the writer in
  order.
\<close>

record ResponseWriter =
  Header :: "(string \<times> string) list"
  Code :: "nat option"
  Body :: "payload list"
  conn :: "error option"
  trace :: "rw_event list"

definition NewRecorder :: ResponseWriter where
  "NewRecorder = \<lparr>Header = [], Code = None, Body = [], conn = None, trace = []\<rparr>"

definition HeaderSet :: "ResponseWriter \<Rightarrow> string \<Rightarrow> string \<Rightarrow> ResponseWriter" where
  "HeaderSet w k v =
     w\<lparr>Header := (k, v) # filter (\<lambda>kv. fst kv \<noteq> k) (Header w),
       trace := trace w @ [SetHeader k v]\<rparr>"

text \<open>Only the first \<open>WriteHeader\<close> commits a status; a later one is ignored.\<close>

definition WriteHeader :: "ResponseWriter \<Rightarrow> nat \<Rightarrow> ResponseWriter" where
  "WriteHeader w status =
     (case Code w of
        None \<Rightarrow> w\<lparr>Code := Some status, trace := trace w @ [WroteHeader status]\<rparr>
      | Some c \<Rightarrow> w)"

text \<open>
  \<open>Write\<close> commits status 200 when no status was committed before, then sends the
  payload; on a broken connection nothing is added to the body and the error is returned.
\<close>

definition Write :: "ResponseWriter \<Rightarrow> payload \<Rightarrow> ResponseWriter \<times> error option" where
  "Write w p =
     (let w1 = (case Code w of None \<Rightarrow> WriteHeader w StatusOK | Some c \<Rightarrow> w)
      in case conn w1 of
           Some err \<Rightarrow> (w1\<lparr>trace := trace w1 @ [WriteFailed p err]\<rparr>, Some err)
         | None \<Rightarrow> (w1\<lparr>Body := Body w1 @ [p], trace := trace w1 @ [Wrote p]\<rparr>, None))"

text \<open>\<open>json.NewEncoder(w).Encode(v)\<close>: one write of the document; its error is the write's.\<close>

definition Encode :: "ResponseWriter \<Rightarrow> json \<Rightarrow> ResponseWriter \<times> error option" where
  "Encode w v = Write w (JSON v)"

subsection \<open>The world outside the handler\<close>

datatype command = INCR string | GET string | PING

text \<open>
  The Redis client as the handlers use it: three calls, each a function of the context,
  the key and the store's state, giving Go's \<open>(value, err)\<close> pair and the store's next
  state. \<open>Get\<close> gives the reply as a string (\<open>*redis.StringCmd\<close>), parsed later by
  \<open>Int64\<close>.
\<close>

record 's Client =
  Incr :: "Context \<Rightarrow> string \<Rightarrow> 's \<Rightarrow> (int64 \<times> error option) \<times> 's"
  Get :: "Context \<Rightarrow> string \<Rightarrow> 's \<Rightarrow> (string \<times> error option) \<times> 's"
  Ping :: "Context \<Rightarrow> 's \<Rightarrow> (string \<times> error option) \<times> 's"

record 's Server =
  RedisClient :: "'s Client"

text \<open>
  \<open>store\<close> is the state behind the client, \<open>calls\<close> the commands issued so far,
  \<open>logs\<close> the \<open>slog.Error\<close> records (message and the error under the key \<open>err\<close>).
\<close>

record 's world =
  store :: 's
  calls :: "command list"
  logs :: "(string \<times> error) list"

definition slog_Error :: "string \<Rightarrow> error \<Rightarrow> 's world \<Rightarrow> 's world" where
  "slog_Error msg err e = e\<lparr>logs := logs e @ [(msg, err)]\<rparr>"

definition call_Incr ::
  "'s Server \<Rightarrow> Context \<Rightarrow> string \<Rightarrow> 's world \<Rightarrow> (int64 \<times> error option) \<times> 's world" where
  "call_Incr s ctx key e =
     (let (res, st) = Incr (RedisClient s) ctx key (store e)
      in (res, e\<lparr>store := st, calls := calls e @ [INCR key]\<rparr>))"

definition call_Get ::
  "'s Server \<Rightarrow> Context \<Rightarrow> string \<Rightarrow> 's world \<Rightarrow> (string \<times> error option) \<times> 's world" where
  "call_Get s ctx key e =
     (let (res, st) = Get (RedisClient s) ctx key (store e)
      in (res, e\<lparr>store := st, calls := calls e @ [GET key]\<rparr>))"

definition call_Ping ::
  "'s Server \<Rightarrow> Context \<Rightarrow> 's world \<Rightarrow> (string \<times> error option) \<times> 's world" where
  "call_Ping s ctx e =
     (let (res, st) = Ping (RedisClient s) ctx (store e)
      in (res, e\<lparr>store := st, calls := calls e @ [PING]\<rparr>))"

subsection \<open>Decimal integers: \<open>strconv.ParseInt\<close> and the verb \<open>%d\<close>\<close>

definition digit_chars :: string where
  "digit_chars = ''0123456789''"

text \<open>A byte from \<open>'0'\<close> to \<open>'9'\<close> stands for \<open>c - '0'\<close>; any other byte is no digit.\<close>

definition digit_val :: "char \<Rightarrow> nat option" where
  "digit_val c =
     (let b = (of_char c :: nat)
      in if of_char CHR ''0'' \<le> b \<and> b \<le> of_char CHR ''9''
         then Some (b - of_char CHR ''0'')
         else None)"

text \<open>
  The loop of \<open>strconv.ParseUint(s, 10, 64)\<close> over the bytes, with \<open>n\<close> the value so
  far: a byte that is no digit is a syntax error with value 0; a value that leaves 64
  bits is a range error with the largest value, returned at the digit that overflows,
  before the rest of the text is looked at.
\<close>

fun ParseUint_loop :: "nat \<Rightarrow> string \<Rightarrow> nat \<times> num_err option" where
  "ParseUint_loop n [] = (n, None)"
| "ParseUint_loop n (c # cs) =
     (case digit_val c of
        None \<Rightarrow> (0, Some ErrSyntax)
      | Some d \<Rightarrow>
          if n \<ge> (2 ^ 64 - 1) div 10 + 1 then (2 ^ 64 - 1, Some ErrRange)
          else if 10 * n + d > 2 ^ 64 - 1 then (2 ^ 64 - 1, Some ErrRange)
          else ParseUint_loop (10 * n + d) cs)"

definition ParseUint :: "string \<Rightarrow> nat \<times> num_err option" where
  "ParseUint s = (if s = [] then (0, Some ErrSyntax) else ParseUint_loop 0 s)"

text \<open>
  \<open>strconv.ParseInt(s, 10, 64)\<close>: an optional sign, then \<open>ParseUint\<close> on the rest.
  A syntax error gives 0; a value out of range gives the nearest bound and \<open>ErrRange\<close>.
  The error names the whole text \<open>s\<close>.
\<close>

definition ParseInt :: "string \<Rightarrow> int64 \<times> error option" where
  "ParseInt s =
     (case s of
        [] \<Rightarrow> (0, Some (NumError s ErrSyntax))
      | c # cs \<Rightarrow>
          (let neg = (c = CHR ''-'');
               ds = (if c = CHR ''+'' \<or> c = CHR ''-'' then cs else s);
               (un, err) = ParseUint ds
           in if err = Some ErrSyntax then (0, Some (NumError s ErrSyntax))
              else if \<not> neg \<and> un \<ge> 2 ^ 63 then
                (word_of_nat (2 ^ 63 - 1), Some (NumError s ErrRange))
              else if neg \<and> un > 2 ^ 63 then
                (- word_of_nat (2 ^ 63), Some (NumError s ErrRange))
              else (if neg then - word_of_nat un else word_of_nat un, None)))"

text \<open>\<open>(*redis.StringCmd).Int64\<close>: the command's error if it has one, else \<open>ParseInt\<close>.\<close>

definition Int64 :: "string \<times> error option \<Rightarrow> int64 \<times> error option" where
  "Int64 cmd =
     (case snd cmd of
        Some err \<Rightarrow> (0, Some err)
      | None \<Rightarrow> ParseInt (fst cmd))"

fun dec_digits :: "nat \<Rightarrow> string" where
  "dec_digits n =
     (if n < 10 then [digit_chars ! n]
      else dec_digits (n div 10) @ [digit_chars ! (n mod 10)])"

declare dec_digits.simps [simp del]

definition FormatInt :: "int \<Rightarrow> string" where
  "FormatInt i = (if i < 0 then CHR ''-'' # dec_digits (nat (- i)) else dec_digits (nat i))"

text \<open>
  \<open>fmt.Sprintf\<close> for the formats of this program: literal text, \<open>%%\<close> and \<open>%d\<close> with
  integer arguments (a \<open>%d\<close> without an argument prints \<open>%!d(MISSING)\<close>, a \<open>%\<close> at the
  end \<open>%!(NOVERB)\<close>). Other verbs do not occur and are copied.
\<close>

fun Sprintf :: "string \<Rightarrow> int list \<Rightarrow> string" where
  "Sprintf [] args = []"
| "Sprintf [c] args = (if c = CHR ''%'' then ''%!(NOVERB)'' else [c])"
| "Sprintf (c # d # fmt) args =
     (if c \<noteq> CHR ''%'' then c # Sprintf (d # fmt) args
      else if d = CHR ''%'' then CHR ''%'' # Sprintf fmt args
      else if d = CHR ''d'' then
        (case args of
           [] \<Rightarrow> ''%!d(MISSING)'' @ Sprintf fmt []
         | a # as \<Rightarrow> FormatInt a @ Sprintf fmt as)
      else c # d # Sprintf fmt args)"

subsection \<open>The handlers\<close>

definition writeJSON :: "ResponseWriter \<Rightarrow> nat \<Rightarrow> json \<Rightarrow> 's world \<Rightarrow> ResponseWriter \<times> 's world" where
  "writeJSON w status v e =
     (let w1 = HeaderSet w ''Content-Type'' ''application/json'';
          w2 = WriteHeader w1 status;
          (w3, err) = Encode w2 v
      in case err of
           Some x \<Rightarrow> (w3, slog_Error ''Failed to write JSON response'' x e)
         | None \<Rightarrow> (w3, e))"

definition writeJSONError ::
  "ResponseWriter \<Rightarrow> nat \<Rightarrow> string \<Rightarrow> 's world \<Rightarrow> ResponseWriter \<times> 's world" where
  "writeJSONError w status message e = writeJSON w status (StrMap [(''error'', message)]) e"

definition WriteHandler ::
  "'s Server \<Rightarrow> ResponseWriter \<Rightarrow> Request \<Rightarrow> 's world \<Rightarrow> ResponseWriter \<times> 's world" where
  "WriteHandler s w r e =
     (if Method r \<noteq> MethodPost then
        writeJSONError w StatusMethodNotAllowed ''Only POST method is allowed'' e
      else
        let ((val, err), e1) = call_Incr s (Ctx r) redisCounterKey e
        in case err of
             Some x \<Rightarrow>
               writeJSONError w StatusInternalServerError ''Failed to update counter''
                 (slog_Error ''Failed to increment redis counter'' x e1)
           | None \<Rightarrow> writeJSON w StatusOK (IntMap [(''value'', val)]) e1)"

definition ReadHandler ::
  "'s Server \<Rightarrow> ResponseWriter \<Rightarrow> Request \<Rightarrow> 's world \<Rightarrow> ResponseWriter \<times> 's world" where
  "ReadHandler s w r e =
     (if Method r \<noteq> MethodGet then
        writeJSONError w StatusMethodNotAllowed ''Only GET method is allowed'' e
      else
        let (cmd, e1) = call_Get s (Ctx r) redisCounterKey e;
            (val, err) = Int64 cmd
        in if err = Some RedisNil then writeJSON w StatusOK (IntMap [(''value'', 0)]) e1
           else case err of
                  Some x \<Rightarrow>
                    writeJSONError w StatusInternalServerError ''Failed to read counter''
                      (slog_Error ''Failed to read redis counter'' x e1)
                | None \<Rightarrow> writeJSON w StatusOK (IntMap [(''value'', val)]) e1)"

definition HealthHandler ::
  "'s Server \<Rightarrow> ResponseWriter \<Rightarrow> Request \<Rightarrow> 's world \<Rightarrow> ResponseWriter \<times> 's world" where
  "HealthHandler s w r e =
     (if Method r \<noteq> MethodGet then
        writeJSONError w StatusMethodNotAllowed ''Only GET method is allowed'' e
      else
        let ((pong, err), e1) = call_Ping s (Ctx r) e
        in case err of
             Some x \<Rightarrow>
               writeJSONError w StatusServiceUnavailable ''Redis unavailable''
                 (slog_Error ''Health check failed - Redis connectivity'' x e1)
           | None \<Rightarrow>
               writeJSON w StatusOK
                 (StrMap [(''status'', ''healthy''), (''service'', ''tikky-api''),
                          (''redis'', ''connected''), (''vibe'', ''immaculate'')]) e1)"

text \<open>The format of the metrics page, a raw string literal in the source.\<close>

definition metrics :: string where
  "metrics =
     ''# HELP tikky_counter_total Total counter value (goes brrr)\<newline>'' @
     ''# TYPE tikky_counter_total counter\<newline>'' @
     ''tikky_counter_total %d\<newline>'' @
     ''\<newline>'' @
     ''# HELP tikky_redis_connected Redis connection status (1=connected, 0=disconnected)\<newline>'' @
     ''# TYPE tikky_redis_connected gauge\<newline>'' @
     ''tikky_redis_connected %d\<newline>'' @
     ''\<newline>'' @
     ''# HELP tikky_build_info Build information\<newline>'' @
     ''# TYPE tikky_build_info gauge\<newline>'' @
     ''tikky_build_info{version='' @ [CHR 0x22] @ ''1.0.0'' @ [CHR 0x22] @
       '',service='' @ [CHR 0x22] @ ''tikky-api'' @ [CHR 0x22] @ ''} 1\<newline>''"

definition MetricsHandler ::
  "'s Server \<Rightarrow> ResponseWriter \<Rightarrow> Request \<Rightarrow> 's world \<Rightarrow> ResponseWriter \<times> 's world" where
  "MetricsHandler s w r e =
     (if Method r \<noteq> MethodGet then
        writeJSONError w StatusMethodNotAllowed ''Only GET method is allowed'' e
      else
        let (cmd, e1) = call_Get s (Ctx r) redisCounterKey e;
            (val0, err) = Int64 cmd;
            (val, e2) =
              (if err = Some RedisNil then (0, e1)
               else case err of
                      Some x \<Rightarrow> (- 1, slog_Error ''Failed to read counter for metrics'' x e1)
                    | None \<Rightarrow> (val0, e1));
            w1 = HeaderSet w ''Content-Type'' ''text/plain; version=0.0.4; charset=utf-8'';
            w2 = WriteHeader w1 StatusOK;
            ((pong, perr), e3) = call_Ping s (Ctx r) e2;
            redisConnected = (case perr of Some x \<Rightarrow> 0 | None \<Rightarrow> 1);
            (w3, werr) = Write w2 (Bytes (Sprintf metrics [sint val, redisConnected]))
        in (w3, e3))"

subsection \<open>Routing and sequential service\<close>

text \<open>The routes registered in \<open>main\<close>: an exact path for each handler.\<close>

type_synonym 's handler =
  "'s Server \<Rightarrow> ResponseWriter \<Rightarrow> Request \<Rightarrow> 's world \<Rightarrow> ResponseWriter \<times> 's world"

definition mux :: "string \<Rightarrow> 's handler option" where
  "mux path =
     (if path = ''/read'' then Some ReadHandler
      else if path = ''/write'' then Some WriteHandler
      else if path = ''/health'' then Some HealthHandler
      else if path = ''/metrics'' then Some MetricsHandler
      else None)"

text \<open>\<open>httptest.NewRequest(method, target, body)\<close> of the tests.\<close>

definition NewRequest :: "string \<Rightarrow> string \<Rightarrow> string \<Rightarrow> Request" where
  "NewRequest method target body =
     \<lparr>Method = method, URL = target, ReqHeader = [], ReqBody = body, Ctx = Background\<rparr>"

text \<open>
  Requests to \<open>/write\<close> served one after the other, each with a recorder of its own
  (the loop of \<open>BenchmarkWriteHandler\<close>, over any list of requests); the recorders are
  returned in the order of the requests.
\<close>

fun serve_writes :: "'s Server \<Rightarrow> Request list \<Rightarrow> 's world \<Rightarrow> ResponseWriter list \<times> 's world" where
  "serve_writes s [] e = ([], e)"
| "serve_writes s (r # rs) e =
     (let (w, e1) = WriteHandler s NewRecorder r e;
          (ws, e2) = serve_writes s rs e1
      in (w # ws, e2))"

subsection \<open>The store\<close>

text \<open>
  Modelled from the spec: the counter store is an external Redis server reached through
  the go-redis client; neither is part of the repository. The spec gives its contract:
  \<open>INCR(key)\<close> is an atomic increment by one that returns the resulting value and
  creates the key with value 1, \<open>GET(key)\<close> returns the integer or reports the key
  absent, \<open>PING()\<close> succeeds or errors, and any call can fail (network, timeout, server
  error). The state holds the integer under each key and, for the calls to come, whether
  each fails in transport (\<open>Some err\<close>); a call under a context that is done fails with
  the context's error. An increment of the largest 64-bit value is a server error, as in
  Redis.
\<close>

record redis =
  kv :: "string \<Rightarrow> int64 option"
  faults :: "error option list"

definition max_int64 :: int64 where
  "max_int64 = 0x7FFFFFFFFFFFFFFF"

definition ctx_err :: "Context \<Rightarrow> error option" where
  "ctx_err ctx =
     (case ctx of
        Background \<Rightarrow> None
      | Canceled \<Rightarrow> Some (OtherError ''context canceled'')
      | DeadlineExceeded \<Rightarrow> Some (OtherError ''context deadline exceeded''))"

definition transport :: "Context \<Rightarrow> redis \<Rightarrow> error option \<times> redis" where
  "transport ctx st =
     (case ctx_err ctx of
        Some x \<Rightarrow> (Some x, st)
      | None \<Rightarrow>
          (case faults st of
             [] \<Rightarrow> (None, st)
           | f # fs \<Rightarrow> (f, st\<lparr>faults := fs\<rparr>)))"

definition redis_Incr :: "Context \<Rightarrow> string \<Rightarrow> redis \<Rightarrow> (int64 \<times> error option) \<times> redis" where
  "redis_Incr ctx key st =
     (case transport ctx st of
        (Some x, st1) \<Rightarrow> ((0, Some x), st1)
      | (None, st1) \<Rightarrow>
          (let old = (case kv st1 key of None \<Rightarrow> 0 | Some v \<Rightarrow> v)
           in if old = max_int64 then
                ((0, Some (OtherError ''ERR increment or decrement would overflow'')), st1)
              else ((old + 1, None), st1\<lparr>kv := (kv st1)(key \<mapsto> old + 1)\<rparr>)))"

definition redis_Get :: "Context \<Rightarrow> string \<Rightarrow> redis \<Rightarrow> (string \<times> error option) \<times> redis" where
  "redis_Get ctx key st =
     (case transport ctx st of
        (Some x, st1) \<Rightarrow> (([], Some x), st1)
      | (None, st1) \<Rightarrow>
          (case kv st1 key of
             None \<Rightarrow> (([], Some RedisNil), st1)
           | Some v \<Rightarrow> ((FormatInt (sint v), None), st1)))"

definition redis_Ping :: "Context \<Rightarrow> redis \<Rightarrow> (string \<times> error option) \<times> redis" where
  "redis_Ping ctx st =
     (case transport ctx st of
        (Some x, st1) \<Rightarrow> (([], Some x), st1)
      | (None, st1) \<Rightarrow> ((''PONG'', None), st1))"

definition redis_client :: "redis Client" where
  "redis_client = \<lparr>Incr = redis_Incr, Get = redis_Get, Ping = redis_Ping\<rparr>"

definition tikky :: "redis Server" where
  "tikky = \<lparr>RedisClient = redis_client\<rparr>"

text \<open>A world whose store holds \<open>c\<close> under the counter key (\<open>None\<close>: the key is absent).\<close>

definition world_of :: "int64 option \<Rightarrow> error option list \<Rightarrow> redis world" where
  "world_of c fs =
     \<lparr>store = \<lparr>kv = (\<lambda>k. if k = redisCounterKey then c else None), faults = fs\<rparr>,
      calls = [], logs = []\<rparr>"

subsection \<open>The metrics page, line by line\<close>

text \<open>
  The page as the specification describes it: for each of the three metrics a
  \<open># HELP\<close> line, a \<open># TYPE\<close> line and the sample, with the counter value \<open>v\<close> and the
  connectivity gauge \<open>c\<close> in decimal. It is compared below with what \<open>Sprintf\<close> makes of
  the source's format.
\<close>

definition metrics_page :: "int \<Rightarrow> int \<Rightarrow> string list" where
  "metrics_page v c =
     [''# HELP tikky_counter_total Total counter value (goes brrr)'',
      ''# TYPE tikky_counter_total counter'',
      ''tikky_counter_total '' @ FormatInt v,
      [],
      ''# HELP tikky_redis_connected Redis connection status (1=connected, 0=disconnected)'',
      ''# TYPE tikky_redis_connected gauge'',
      ''tikky_redis_connected '' @ FormatInt c,
      [],
      ''# HELP tikky_build_info Build information'',
      ''# TYPE tikky_build_info gauge'',
      ''tikky_build_info{version='' @ [CHR 0x22] @ ''1.0.0'' @ [CHR 0x22] @
        '',service='' @ [CHR 0x22] @ ''tikky-api'' @ [CHR 0x22] @ ''} 1'']"

definition unlines :: "string list \<Rightarrow> string" where
  "unlines ls = concat (map (\<lambda>l. l @ ''\<newline>'') ls)"

text \<open>The value under the counter key, an absent key counting as 0.\<close>

definition counter_of :: "redis world \<Rightarrow> int64" where
  "counter_of e = (case kv (store e) redisCounterKey of None \<Rightarrow> 0 | Some v \<Rightarrow> v)"

section \<open>Properties\<close>

subsection \<open>Auxiliary facts\<close>

lemmas call_defs = call_Incr_def call_Get_def call_Ping_def

lemmas model_defs =
  tikky_def redis_client_def redis_Incr_def redis_Get_def redis_Ping_def transport_def
  ctx_err_def NewRequest_def world_of_def NewRecorder_def max_int64_def redisCounterKey_def

lemma Sprintf_metrics: "Sprintf metrics [v, c] = unlines (metrics_page v c)"
  by (simp add: metrics_def metrics_page_def unlines_def)

lemma ParseInt_not_Nil: "snd (ParseInt s) \<noteq> Some RedisNil"
  by (auto simp: ParseInt_def Let_def split_beta split: list.splits)

text \<open>What \<open>writeJSON\<close> leaves in the writer and in the world.\<close>

lemma writeJSON_writer:
  assumes "Code w = None"
  shows "fst (writeJSON w st v e) =
           w\<lparr>Header := (''Content-Type'', ''application/json'') #
                        filter (\<lambda>kv. fst kv \<noteq> ''Content-Type'') (Header w),
             Code := Some st,
             Body := (case conn w of None \<Rightarrow> Body w @ [JSON v] | Some x \<Rightarrow> Body w),
             trace := trace w @ [SetHeader ''Content-Type'' ''application/json'', WroteHeader st,
                        (case conn w of None \<Rightarrow> Wrote (JSON v) | Some x \<Rightarrow> WriteFailed (JSON v) x)]\<rparr>"
  using assms
  by (cases "conn w") (simp_all add: writeJSON_def Encode_def Write_def WriteHeader_def HeaderSet_def)

lemma writeJSON_world:
  "snd (writeJSON w st v e) =
     (case conn w of None \<Rightarrow> e | Some x \<Rightarrow> slog_Error ''Failed to write JSON response'' x e)"
  by (cases "conn w"; cases "Code w")
     (simp_all add: writeJSON_def Encode_def Write_def WriteHeader_def HeaderSet_def)

lemma writeJSON_fst:
  "fst (writeJSON w st v e) =
     fst (Write (WriteHeader (HeaderSet w ''Content-Type'' ''application/json'') st) (JSON v))"
  by (simp add: writeJSON_def Encode_def Let_def split_beta split: option.splits)

lemma metrics_writer:
  assumes "Code w = None"
  shows "fst (Write (WriteHeader (HeaderSet w ''Content-Type''
                ''text/plain; version=0.0.4; charset=utf-8'') StatusOK) p) =
           w\<lparr>Header := (''Content-Type'', ''text/plain; version=0.0.4; charset=utf-8'') #
                        filter (\<lambda>kv. fst kv \<noteq> ''Content-Type'') (Header w),
             Code := Some StatusOK,
             Body := (case conn w of None \<Rightarrow> Body w @ [p] | Some x \<Rightarrow> Body w),
             trace := trace w @ [SetHeader ''Content-Type'' ''text/plain; version=0.0.4; charset=utf-8'',
                        WroteHeader StatusOK,
                        (case conn w of None \<Rightarrow> Wrote p | Some x \<Rightarrow> WriteFailed p x)]\<rparr>"
  using assms by (cases "conn w") (simp_all add: Write_def WriteHeader_def HeaderSet_def)

text \<open>Every response but the metrics page is one call of \<open>writeJSON\<close>.\<close>

lemma WriteHandler_writeJSON:
  "\<exists>st v e'. \<forall>w. WriteHandler s w r e = writeJSON w st v e'"
proof (cases "Method r = MethodPost")
  case False
  then show ?thesis
    by (auto simp add: WriteHandler_def writeJSONError_def)
next
  case True
  obtain val err st1 where
    i: "Incr (RedisClient s) (Ctx r) redisCounterKey (store e) = ((val, err), st1)"
    by (metis prod.exhaust)
  show ?thesis
    using True i
    by (cases err) (auto simp add: WriteHandler_def call_Incr_def writeJSONError_def)
qed

lemma ReadHandler_writeJSON:
  "\<exists>st v e'. \<forall>w. ReadHandler s w r e = writeJSON w st v e'"
proof (cases "Method r = MethodGet")
  case False
  then show ?thesis
    by (auto simp add: ReadHandler_def writeJSONError_def)
next
  case True
  obtain cmd st1 where g: "Get (RedisClient s) (Ctx r) redisCounterKey (store e) = (cmd, st1)"
    by (metis prod.exhaust)
  obtain val err where p: "Int64 cmd = (val, err)"
    by (metis prod.exhaust)
  show ?thesis
    using True g p
    by (cases "err = Some RedisNil"; cases err)
       (auto simp add: ReadHandler_def call_Get_def writeJSONError_def)
qed

lemma HealthHandler_writeJSON:
  "\<exists>st v e'. \<forall>w. HealthHandler s w r e = writeJSON w st v e'"
proof (cases "Method r = MethodGet")
  case False
  then show ?thesis
    by (auto simp add: HealthHandler_def writeJSONError_def)
next
  case True
  obtain pong err st1 where i: "Ping (RedisClient s) (Ctx r) (store e) = ((pong, err), st1)"
    by (metis prod.exhaust)
  show ?thesis
    using True i
    by (cases err) (auto simp add: HealthHandler_def call_Ping_def writeJSONError_def)
qed

lemma MetricsHandler_writeJSON:
  "Method r \<noteq> MethodGet \<Longrightarrow> \<exists>st v e'. \<forall>w. MetricsHandler s w r e = writeJSON w st v e'"
  by (auto simp add: MetricsHandler_def writeJSONError_def)

text \<open>The metrics page in closed form, from the two store outcomes.\<close>

lemma MetricsHandler_GET:
  assumes "Method r = MethodGet"
    and "Get (RedisClient s) (Ctx r) redisCounterKey (store e) = (cmd, st1)"
    and "Ping (RedisClient s) (Ctx r) st1 = ((pong, perr), st2)"
  shows "MetricsHandler s w r e =
     (fst (Write (WriteHeader (HeaderSet w ''Content-Type''
                ''text/plain; version=0.0.4; charset=utf-8'') StatusOK)
        (Bytes (unlines (metrics_page
               (if snd (Int64 cmd) = Some RedisNil then 0
                else if snd (Int64 cmd) = None then sint (fst (Int64 cmd))
                else - 1)
               (if perr = None then 1 else 0))))),
      \<lparr>store = st2, calls = calls e @ [GET redisCounterKey, PING],
       logs = (if snd (Int64 cmd) = Some RedisNil \<or> snd (Int64 cmd) = None then logs e
               else logs e @ [(''Failed to read counter for metrics'', the (snd (Int64 cmd)))])\<rparr>)"
proof -
  obtain val err where p: "Int64 cmd = (val, err)"
    by (metis prod.exhaust)
  show ?thesis
    using assms p
    by (cases err; cases perr)
       (simp_all add: MetricsHandler_def call_Get_def call_Ping_def slog_Error_def
          Sprintf_metrics split_beta del: Sprintf.simps)
qed

text \<open>Signed 64-bit successor below the largest value; one write against the store.\<close>

lemma sint_max_int64: "sint max_int64 = 2 ^ 63 - 1"
  by (simp add: max_int64_def)

lemma sint_succ:
  assumes "p \<noteq> max_int64"
  shows "sint (p + 1) = sint p + 1"
proof -
  have "sint p \<noteq> sint max_int64"
    using assms by (simp add: word_eq_iff_signed [symmetric] signed_word_eqI)
  moreover have "sint p < 2 ^ 63" and "- (2 ^ 63) \<le> sint p"
    using sint_lt [of p] sint_ge [of p] by simp_all
  ultimately have r: "sint p + 1 < 2 ^ 63" "- (2 ^ 63) \<le> sint p + 1"
    by (simp_all add: sint_max_int64)
  have "sint (p + 1) = signed_take_bit 63 (sint p + 1)"
    by (simp add: sint_word_ariths)
  also have "\<dots> = sint p + 1"
    using r by (simp add: signed_take_bit_int_eq_self)
  finally show ?thesis .
qed

lemma length_serve_writes: "length (fst (serve_writes s rs e)) = length rs"
  by (induction rs arbitrary: e) (simp_all add: split_beta)

lemma write_step:
  assumes "Method r = MethodPost"
    and "Code (fst (WriteHandler tikky NewRecorder r e)) = Some StatusOK"
  shows "Body (fst (WriteHandler tikky NewRecorder r e)) =
           [JSON (IntMap [(''value'', counter_of e + 1)])]
       \<and> counter_of (snd (WriteHandler tikky NewRecorder r e)) = counter_of e + 1
       \<and> counter_of e \<noteq> max_int64"
  using assms
  by (auto simp add: WriteHandler_def call_Incr_def tikky_def redis_client_def redis_Incr_def
        transport_def writeJSONError_def writeJSON_writer writeJSON_world NewRecorder_def
        counter_of_def slog_Error_def Let_def split_beta
      split: option.splits list.splits if_splits prod.splits)

lemma serve_writes_values:
  assumes "\<forall>r \<in> set rs. Method r = MethodPost"
    and "\<forall>w \<in> set (fst (serve_writes tikky rs e)). Code w = Some StatusOK"
    and "k < length rs"
  shows "Body (fst (serve_writes tikky rs e) ! k) =
           [JSON (IntMap [(''value'', counter_of e + of_nat (Suc k))])]
       \<and> sint (counter_of e + of_nat (Suc k)) = sint (counter_of e) + int (Suc k)"
  using assms
proof (induction rs arbitrary: e k)
  case Nil
  then show ?case by simp
next
  case (Cons r rs)
  let ?w = "fst (WriteHandler tikky NewRecorder r e)"
  let ?e1 = "snd (WriteHandler tikky NewRecorder r e)"
  have unf: "fst (serve_writes tikky (r # rs) e) = ?w # fst (serve_writes tikky rs ?e1)"
    by (simp add: split_beta)
  have post: "Method r = MethodPost"
    using Cons.prems(1) by simp
  have ok: "Code ?w = Some StatusOK"
    using Cons.prems(2) unf by simp
  note st = write_step [OF post ok]
  have s1: "sint (counter_of e + 1) = sint (counter_of e) + 1"
    using st sint_succ by blast
  show ?case
  proof (cases k)
    case 0
    then show ?thesis
      using st s1 unf by simp
  next
    case (Suc k')
    have a1: "\<forall>r \<in> set rs. Method r = MethodPost"
      using Cons.prems(1) by simp
    have a2: "\<forall>w \<in> set (fst (serve_writes tikky rs ?e1)). Code w = Some StatusOK"
      using Cons.prems(2) unf by simp
    have a3: "k' < length rs"
      using Cons.prems(3) Suc by simp
    note ih = Cons.IH [OF a1 a2 a3]
    have c: "counter_of ?e1 + of_nat (Suc k') = counter_of e + of_nat (Suc k)"
      using st Suc by simp
    have e1: "counter_of ?e1 = counter_of e + 1"
      using st by simp
    have b: "Body (fst (serve_writes tikky (r # rs) e) ! k) =
               [JSON (IntMap [(''value'', counter_of e + of_nat (Suc k))])]"
      using ih unf Suc by (simp only: c nth_Cons_Suc)
    have "sint (counter_of e + of_nat (Suc k)) = sint (counter_of ?e1) + int (Suc k')"
      using ih by (simp only: c)
    also have "\<dots> = sint (counter_of e) + int (Suc k)"
      by (simp add: e1 s1 Suc)
    finally show ?thesis
      using b by simp
  qed
qed

text \<open>
  The answers with status 200 that the count of sequential increments speaks of do
  occur: on a store without faults, under contexts that are not done, and with room
  below the largest 64-bit value, every one of the requests is answered with 200.
\<close>

lemma write_step_ok:
  assumes "Method r = MethodPost" and "Ctx r = Background"
    and "faults (store e) = []" and "counter_of e \<noteq> max_int64"
  shows "Code (fst (WriteHandler tikky NewRecorder r e)) = Some StatusOK
       \<and> faults (store (snd (WriteHandler tikky NewRecorder r e))) = []
       \<and> counter_of (snd (WriteHandler tikky NewRecorder r e)) = counter_of e + 1"
  using assms
  by (auto simp add: WriteHandler_def call_Incr_def tikky_def redis_client_def redis_Incr_def
        transport_def ctx_err_def writeJSON_writer writeJSON_world NewRecorder_def
        counter_of_def Let_def split: option.splits)

lemma serve_writes_succeed:
  assumes "\<forall>r \<in> set rs. Method r = MethodPost \<and> Ctx r = Background"
    and "faults (store e) = []"
    and "sint (counter_of e) + int (length rs) < 2 ^ 63"
  shows "\<forall>w \<in> set (fst (serve_writes tikky rs e)). Code w = Some StatusOK"
  using assms
proof (induction rs arbitrary: e)
  case Nil
  then show ?case by simp
next
  case (Cons r rs)
  let ?e1 = "snd (WriteHandler tikky NewRecorder r e)"
  have "sint (counter_of e) \<noteq> sint max_int64"
    using Cons.prems(3) by (simp add: sint_max_int64)
  then have ne: "counter_of e \<noteq> max_int64"
    by auto
  have m: "Method r = MethodPost" and c: "Ctx r = Background"
    using Cons.prems(1) by simp_all
  note st = write_step_ok [OF m c Cons.prems(2) ne]
  have a1: "\<forall>r \<in> set rs. Method r = MethodPost \<and> Ctx r = Background"
    using Cons.prems(1) by simp
  have a3: "sint (counter_of ?e1) + int (length rs) < 2 ^ 63"
    using st sint_succ [OF ne] Cons.prems(3) by simp
  have "\<forall>w \<in> set (fst (serve_writes tikky rs ?e1)). Code w = Some StatusOK"
    using Cons.IH [OF a1 _ a3] st by simp
  then show ?case
    using st by (simp add: split_beta)
qed

subsection \<open>Increment\<close>

text \<open>
  C1. A POST request to \<open>/write\<close> whose increment succeeds at the store with value \<open>v\<close>
  is answered with status 200 and the body \<open>{"value": v}\<close>: the value is the one the
  store's increment returned (the value after the increment). Exactly one command, the
  increment of the counter key, is sent.
\<close>

theorem WriteHandler_success:
  assumes "Method r = MethodPost"
    and "Incr (RedisClient s) (Ctx r) redisCounterKey (store e) = ((v, None), st)"
    and "Code w = None" and "conn w = None"
  shows "Code (fst (WriteHandler s w r e)) = Some StatusOK
       \<and> Body (fst (WriteHandler s w r e)) = Body w @ [JSON (IntMap [(''value'', v)])]
       \<and> calls (snd (WriteHandler s w r e)) = calls e @ [INCR redisCounterKey]"
  using assms
  by (simp add: WriteHandler_def call_Incr_def writeJSON_writer writeJSON_world)

theorem WriteHandler_success_witness:
  "Method (NewRequest ''POST'' ''/write'' []) = MethodPost
   \<and> Incr (RedisClient tikky) (Ctx (NewRequest ''POST'' ''/write'' [])) redisCounterKey
       (store (world_of (Some 41) [])) = ((42, None), store (world_of (Some 42) []))
   \<and> Code NewRecorder = None \<and> conn NewRecorder = None
   \<and> Code (fst (WriteHandler tikky NewRecorder (NewRequest ''POST'' ''/write'' [])
        (world_of (Some 41) []))) = Some StatusOK
   \<and> Body (fst (WriteHandler tikky NewRecorder (NewRequest ''POST'' ''/write'' [])
        (world_of (Some 41) []))) = [JSON (IntMap [(''value'', 42)])]
   \<and> calls (snd (WriteHandler tikky NewRecorder (NewRequest ''POST'' ''/write'' [])
        (world_of (Some 41) []))) = [INCR ''counter'']"
proof -
  let ?r = "NewRequest ''POST'' ''/write'' []"
  have h1: "Method ?r = MethodPost"
    by (simp add: NewRequest_def)
  have h2: "Incr (RedisClient tikky) (Ctx ?r) redisCounterKey (store (world_of (Some 41) [])) =
              ((42, None), store (world_of (Some 42) []))"
    by (simp add: model_defs fun_eq_iff)
  have h3: "Code NewRecorder = None" and h4: "conn NewRecorder = None"
    by (simp_all add: NewRecorder_def)
  have h5: "Body NewRecorder = []" and h6: "calls (world_of (Some 41) []) = []"
    by (simp_all add: NewRecorder_def world_of_def)
  show ?thesis
    using WriteHandler_success [OF h1 h2 h3 h4] h1 h2 h3 h4
    by (simp add: h5 h6 redisCounterKey_def)
qed

text \<open>
  C5. A POST request to \<open>/write\<close> whose increment returns an error, whatever the error,
  is answered with status 500 and the body \<open>{"error": "Failed to update counter"}\<close>.
  The body is this constant, so the store's error is not in it; the error goes to the log.
\<close>

theorem WriteHandler_store_error:
  assumes "Method r = MethodPost"
    and "Incr (RedisClient s) (Ctx r) redisCounterKey (store e) = ((v, Some x), st)"
    and "Code w = None" and "conn w = None"
  shows "Code (fst (WriteHandler s w r e)) = Some StatusInternalServerError
       \<and> Body (fst (WriteHandler s w r e)) =
           Body w @ [JSON (StrMap [(''error'', ''Failed to update counter'')])]
       \<and> logs (snd (WriteHandler s w r e)) =
           logs e @ [(''Failed to increment redis counter'', x)]"
  using assms
  by (simp add: WriteHandler_def call_Incr_def writeJSONError_def writeJSON_writer
        writeJSON_world slog_Error_def)

theorem WriteHandler_store_error_witness:
  "Method (NewRequest ''POST'' ''/write'' []) = MethodPost
   \<and> Incr (RedisClient tikky) (Ctx (NewRequest ''POST'' ''/write'' [])) redisCounterKey
       (store (world_of (Some 41) [Some (OtherError ''i/o timeout'')])) =
         ((0, Some (OtherError ''i/o timeout'')), store (world_of (Some 41) []))
   \<and> Code NewRecorder = None \<and> conn NewRecorder = None
   \<and> Code (fst (WriteHandler tikky NewRecorder (NewRequest ''POST'' ''/write'' [])
        (world_of (Some 41) [Some (OtherError ''i/o timeout'')]))) = Some StatusInternalServerError
   \<and> Body (fst (WriteHandler tikky NewRecorder (NewRequest ''POST'' ''/write'' [])
        (world_of (Some 41) [Some (OtherError ''i/o timeout'')]))) =
          [JSON (StrMap [(''error'', ''Failed to update counter'')])]
   \<and> logs (snd (WriteHandler tikky NewRecorder (NewRequest ''POST'' ''/write'' [])
        (world_of (Some 41) [Some (OtherError ''i/o timeout'')]))) =
          [(''Failed to increment redis counter'', OtherError ''i/o timeout'')]"
proof -
  let ?r = "NewRequest ''POST'' ''/write'' []"
  let ?e = "world_of (Some 41) [Some (OtherError ''i/o timeout'')]"
  have h1: "Method ?r = MethodPost"
    by (simp add: NewRequest_def)
  have h2: "Incr (RedisClient tikky) (Ctx ?r) redisCounterKey (store ?e) =
              ((0, Some (OtherError ''i/o timeout'')), store (world_of (Some 41) []))"
    by (simp add: model_defs)
  have h3: "Code NewRecorder = None" and h4: "conn NewRecorder = None"
    by (simp_all add: NewRecorder_def)
  have h5: "Body NewRecorder = []" and h6: "logs ?e = []"
    by (simp_all add: NewRecorder_def world_of_def)
  show ?thesis
    using WriteHandler_store_error [OF h1 h2 h3 h4] h1 h2 h3 h4
    by (simp add: h5 h6)
qed

subsection \<open>Read\<close>

text \<open>
  C2. A GET request to \<open>/read\<close> for which the store reports the counter key absent
  (\<open>redis.Nil\<close>) is answered with status 200 and the body \<open>{"value": 0}\<close>; nothing is
  logged, the absence is not an error.
\<close>

theorem ReadHandler_absent_key:
  assumes "Method r = MethodGet"
    and "Get (RedisClient s) (Ctx r) redisCounterKey (store e) = ((val, Some RedisNil), st)"
    and "Code w = None" and "conn w = None"
  shows "Code (fst (ReadHandler s w r e)) = Some StatusOK
       \<and> Body (fst (ReadHandler s w r e)) = Body w @ [JSON (IntMap [(''value'', 0)])]
       \<and> logs (snd (ReadHandler s w r e)) = logs e"
  using assms
  by (simp add: ReadHandler_def Int64_def call_Get_def writeJSON_writer writeJSON_world)

theorem ReadHandler_absent_key_witness:
  "Method (NewRequest ''GET'' ''/read'' []) = MethodGet
   \<and> Get (RedisClient tikky) (Ctx (NewRequest ''GET'' ''/read'' [])) redisCounterKey
       (store (world_of None [])) = (([], Some RedisNil), store (world_of None []))
   \<and> Code NewRecorder = None \<and> conn NewRecorder = None
   \<and> Code (fst (ReadHandler tikky NewRecorder (NewRequest ''GET'' ''/read'' [])
        (world_of None []))) = Some StatusOK
   \<and> Body (fst (ReadHandler tikky NewRecorder (NewRequest ''GET'' ''/read'' [])
        (world_of None []))) = [JSON (IntMap [(''value'', 0)])]
   \<and> logs (snd (ReadHandler tikky NewRecorder (NewRequest ''GET'' ''/read'' [])
        (world_of None []))) = []"
proof -
  let ?r = "NewRequest ''GET'' ''/read'' []"
  have h1: "Method ?r = MethodGet"
    by (simp add: NewRequest_def)
  have h2: "Get (RedisClient tikky) (Ctx ?r) redisCounterKey (store (world_of None [])) =
              (([], Some RedisNil), store (world_of None []))"
    by (simp add: model_defs)
  have h3: "Code NewRecorder = None" and h4: "conn NewRecorder = None"
    by (simp_all add: NewRecorder_def)
  have h5: "Body NewRecorder = []" and h6: "logs (world_of None []) = []"
    by (simp_all add: NewRecorder_def world_of_def)
  show ?thesis
    using ReadHandler_absent_key [OF h1 h2 h3 h4] h1 h2 h3 h4
    by (simp add: h5 h6)
qed

subsection \<open>Method check\<close>

text \<open>
  C3. On each of the four routes, a request whose method is not the route's verb (POST
  for \<open>/write\<close>, GET for \<open>/read\<close>, \<open>/health\<close> and \<open>/metrics\<close>) is answered
  with status 405 and the body \<open>{"error": "Only <VERB> method is allowed"}\<close>, and the
  world is left as it was: no command is sent to the store, before or after the
  rejection, the store's state is unchanged and nothing is logged.
\<close>

theorem method_mismatch_rejected:
  assumes "mux path = Some H"
    and "Method r \<noteq> (if path = ''/write'' then MethodPost else MethodGet)"
    and "Code w = None" and "conn w = None"
  shows "Code (fst (H s w r e)) = Some StatusMethodNotAllowed
       \<and> Body (fst (H s w r e)) =
           Body w @ [JSON (StrMap [(''error'',
             ''Only '' @ (if path = ''/write'' then MethodPost else MethodGet) @ '' method is allowed'')])]
       \<and> calls (snd (H s w r e)) = calls e
       \<and> snd (H s w r e) = e"
  using assms
  by (auto simp add: mux_def WriteHandler_def ReadHandler_def HealthHandler_def
        MetricsHandler_def writeJSONError_def writeJSON_writer writeJSON_world
      split: if_splits)

theorem method_mismatch_rejected_witness:
  "mux ''/write'' = Some (WriteHandler :: redis handler)
   \<and> Method (NewRequest ''GET'' ''/write'' []) \<noteq> MethodPost
   \<and> Code NewRecorder = None \<and> conn NewRecorder = None
   \<and> Code (fst (WriteHandler tikky NewRecorder (NewRequest ''GET'' ''/write'' [])
        (world_of (Some 41) []))) = Some StatusMethodNotAllowed
   \<and> Body (fst (WriteHandler tikky NewRecorder (NewRequest ''GET'' ''/write'' [])
        (world_of (Some 41) []))) = [JSON (StrMap [(''error'', ''Only POST method is allowed'')])]
   \<and> calls (snd (WriteHandler tikky NewRecorder (NewRequest ''GET'' ''/write'' [])
        (world_of (Some 41) []))) = []
   \<and> snd (WriteHandler tikky NewRecorder (NewRequest ''GET'' ''/write'' [])
        (world_of (Some 41) [])) = world_of (Some 41) []"
proof -
  let ?r = "NewRequest ''GET'' ''/write'' []"
  have h1: "mux ''/write'' = Some (WriteHandler :: redis handler)"
    by (simp add: mux_def)
  have h2: "Method ?r \<noteq> (if ''/write'' = ''/write'' then MethodPost else MethodGet)"
    by (simp add: NewRequest_def)
  have h3: "Code NewRecorder = None" and h4: "conn NewRecorder = None"
    by (simp_all add: NewRecorder_def)
  have h5: "Body NewRecorder = []" and h6: "calls (world_of (Some 41) []) = []"
    by (simp_all add: NewRecorder_def world_of_def)
  show ?thesis
    using method_mismatch_rejected [OF h1 h2 h3 h4, of tikky "world_of (Some 41) []"] h1 h2 h3 h4
    by (simp add: h5 h6)
qed

subsection \<open>Health check\<close>

text \<open>
  C7. A GET request to \<open>/health\<close> is answered with status 200 exactly when the store's
  liveness probe succeeds, and then the body has the fields \<open>"status": "healthy"\<close>,
  \<open>"service": "tikky-api"\<close>, \<open>"redis": "connected"\<close> and the constant field
  \<open>"vibe": "immaculate"\<close>; it is answered with status 503 exactly when the probe returns
  an error, and then the body is \<open>{"error": "Redis unavailable"}\<close>.
\<close>

theorem HealthHandler_probe:
  assumes "Method r = MethodGet"
    and "Ping (RedisClient s) (Ctx r) (store e) = ((pong, perr), st)"
    and "Code w = None" and "conn w = None"
  shows "(Code (fst (HealthHandler s w r e)) = Some StatusOK \<longleftrightarrow> perr = None)
       \<and> (Code (fst (HealthHandler s w r e)) = Some StatusServiceUnavailable \<longleftrightarrow> perr \<noteq> None)
       \<and> (perr = None \<longrightarrow>
            Body (fst (HealthHandler s w r e)) =
              Body w @ [JSON (StrMap [(''status'', ''healthy''), (''service'', ''tikky-api''),
                                      (''redis'', ''connected''), (''vibe'', ''immaculate'')])])
       \<and> (perr \<noteq> None \<longrightarrow>
            Body (fst (HealthHandler s w r e)) =
              Body w @ [JSON (StrMap [(''error'', ''Redis unavailable'')])])"
  using assms
  by (cases perr)
     (simp_all add: HealthHandler_def call_Ping_def writeJSONError_def writeJSON_writer)

theorem HealthHandler_probe_witness:
  "Method (NewRequest ''GET'' ''/health'' []) = MethodGet
   \<and> Code NewRecorder = None \<and> conn NewRecorder = None
   \<and> Ping (RedisClient tikky) (Ctx (NewRequest ''GET'' ''/health'' []))
       (store (world_of None [])) = ((''PONG'', None), store (world_of None []))
   \<and> Code (fst (HealthHandler tikky NewRecorder (NewRequest ''GET'' ''/health'' [])
        (world_of None []))) = Some StatusOK
   \<and> Body (fst (HealthHandler tikky NewRecorder (NewRequest ''GET'' ''/health'' [])
        (world_of None []))) =
         [JSON (StrMap [(''status'', ''healthy''), (''service'', ''tikky-api''),
                        (''redis'', ''connected''), (''vibe'', ''immaculate'')])]
   \<and> Ping (RedisClient tikky) (Ctx (NewRequest ''GET'' ''/health'' []))
       (store (world_of None [Some (OtherError ''connection refused'')])) =
         (([], Some (OtherError ''connection refused'')), store (world_of None []))
   \<and> Code (fst (HealthHandler tikky NewRecorder (NewRequest ''GET'' ''/health'' [])
        (world_of None [Some (OtherError ''connection refused'')]))) = Some StatusServiceUnavailable
   \<and> Body (fst (HealthHandler tikky NewRecorder (NewRequest ''GET'' ''/health'' [])
        (world_of None [Some (OtherError ''connection refused'')]))) =
         [JSON (StrMap [(''error'', ''Redis unavailable'')])]"
proof -
  let ?r = "NewRequest ''GET'' ''/health'' []"
  let ?down = "world_of None [Some (OtherError ''connection refused'')]"
  have h1: "Method ?r = MethodGet"
    by (simp add: NewRequest_def)
  have up: "Ping (RedisClient tikky) (Ctx ?r) (store (world_of None [])) =
              ((''PONG'', None), store (world_of None []))"
    by (simp add: model_defs)
  have down: "Ping (RedisClient tikky) (Ctx ?r) (store ?down) =
              (([], Some (OtherError ''connection refused'')), store (world_of None []))"
    by (simp add: model_defs)
  have h3: "Code NewRecorder = None" and h4: "conn NewRecorder = None"
    by (simp_all add: NewRecorder_def)
  have h5: "Body NewRecorder = []"
    by (simp add: NewRecorder_def)
  show ?thesis
    using HealthHandler_probe [OF h1 up h3 h4] HealthHandler_probe [OF h1 down h3 h4]
      h1 up down h3 h4
    by (simp add: h5)
qed

subsection \<open>Metrics\<close>

text \<open>
  C4. A GET request to \<open>/metrics\<close> is answered with status 200 whatever the store
  returns. The page is the three metrics, each after its \<open># HELP\<close> and \<open># TYPE\<close>
  lines (\<open>metrics_page\<close>): the counter value is 0 when the key is absent, the sentinel
  \<open>-1\<close> when the read fails otherwise (a store error or a value that does not parse),
  and the value read when it succeeds; the connectivity gauge is 0 when the probe fails
  and 1 when it succeeds.
\<close>

theorem MetricsHandler_always_ok:
  assumes "Method r = MethodGet" and "Code w = None"
    and "Get (RedisClient s) (Ctx r) redisCounterKey (store e) = (cmd, st1)"
    and "Ping (RedisClient s) (Ctx r) st1 = ((pong, perr), st2)"
  shows "Code (fst (MetricsHandler s w r e)) = Some StatusOK
       \<and> (conn w = None \<longrightarrow>
            Body (fst (MetricsHandler s w r e)) =
              Body w @ [Bytes (unlines (metrics_page
                 (if snd (Int64 cmd) = Some RedisNil then 0
                  else if snd (Int64 cmd) = None then sint (fst (Int64 cmd))
                  else - 1)
                 (if perr = None then 1 else 0)))])"
  using assms(2)
  by (simp add: MetricsHandler_GET [OF assms(1) assms(3) assms(4)] metrics_writer)

theorem MetricsHandler_always_ok_witness:
  "Method (NewRequest ''GET'' ''/metrics'' []) = MethodGet
   \<and> Code NewRecorder = None \<and> conn NewRecorder = None
   \<and> Get (RedisClient tikky) (Ctx (NewRequest ''GET'' ''/metrics'' [])) redisCounterKey
       (store (world_of (Some 5) [Some (OtherError ''i/o timeout''), Some (OtherError ''EOF'')])) =
         (([], Some (OtherError ''i/o timeout'')), store (world_of (Some 5) [Some (OtherError ''EOF'')]))
   \<and> Ping (RedisClient tikky) (Ctx (NewRequest ''GET'' ''/metrics'' []))
       (store (world_of (Some 5) [Some (OtherError ''EOF'')])) =
         (([], Some (OtherError ''EOF'')), store (world_of (Some 5) []))
   \<and> Code (fst (MetricsHandler tikky NewRecorder (NewRequest ''GET'' ''/metrics'' [])
        (world_of (Some 5) [Some (OtherError ''i/o timeout''), Some (OtherError ''EOF'')]))) =
         Some StatusOK
   \<and> Body (fst (MetricsHandler tikky NewRecorder (NewRequest ''GET'' ''/metrics'' [])
        (world_of (Some 5) [Some (OtherError ''i/o timeout''), Some (OtherError ''EOF'')]))) =
         [Bytes (unlines (metrics_page (- 1) 0))]
   \<and> metrics_page (- 1) 0 ! 2 = ''tikky_counter_total -1''
   \<and> metrics_page (- 1) 0 ! 6 = ''tikky_redis_connected 0''"
proof -
  let ?r = "NewRequest ''GET'' ''/metrics'' []"
  let ?e = "world_of (Some 5) [Some (OtherError ''i/o timeout''), Some (OtherError ''EOF'')]"
  have h1: "Method ?r = MethodGet"
    by (simp add: NewRequest_def)
  have h2: "Code NewRecorder = None" and h2': "conn NewRecorder = None"
    by (simp_all add: NewRecorder_def)
  have h3: "Get (RedisClient tikky) (Ctx ?r) redisCounterKey (store ?e) =
      (([], Some (OtherError ''i/o timeout'')), store (world_of (Some 5) [Some (OtherError ''EOF'')]))"
    by (simp add: model_defs)
  have h4: "Ping (RedisClient tikky) (Ctx ?r) (store (world_of (Some 5) [Some (OtherError ''EOF'')])) =
      (([], Some (OtherError ''EOF'')), store (world_of (Some 5) []))"
    by (simp add: model_defs)
  have h5: "Body NewRecorder = []"
    by (simp add: NewRecorder_def)
  have l2: "metrics_page (- 1) 0 ! 2 = ''tikky_counter_total -1''"
    and l6: "metrics_page (- 1) 0 ! 6 = ''tikky_redis_connected 0''"
    by (simp_all add: metrics_page_def FormatInt_def dec_digits.simps digit_chars_def)
  show ?thesis
    using MetricsHandler_always_ok [OF h1 h2 h3 h4] h1 h2 h2' h3 h4 l2 l6
    by (simp add: h5 Int64_def)
qed

subsection \<open>A counter that does not parse\<close>

text \<open>
  C9. When the store returns a value for the counter key that \<open>ParseInt\<close> rejects (bad
  syntax or out of the 64-bit range), a GET request to \<open>/read\<close> is answered with status
  500 and the body \<open>{"error": "Failed to read counter"}\<close>: status, body and headers are
  those of the answer to a read that failed at the store with any error other than
  \<open>redis.Nil\<close>. \<open>MetricsHandler\<close> answers the same condition with status 200 and the
  counter value \<open>-1\<close>.
\<close>

theorem unparseable_counter:
  assumes "Method r = MethodGet" and "Code w = None" and "conn w = None"
    and "Get (RedisClient s) (Ctx r) redisCounterKey (store e) = ((val, None), st)"
    and "snd (ParseInt val) \<noteq> None"
    and "Ping (RedisClient s) (Ctx r) st = ((pong, perr), st2)"
    and "Get (RedisClient s') (Ctx r) redisCounterKey (store e') = ((val', Some x), st')"
    and "x \<noteq> RedisNil"
  shows "Code (fst (ReadHandler s w r e)) = Some StatusInternalServerError
       \<and> Body (fst (ReadHandler s w r e)) =
           Body w @ [JSON (StrMap [(''error'', ''Failed to read counter'')])]
       \<and> Code (fst (ReadHandler s' w r e')) = Code (fst (ReadHandler s w r e))
       \<and> Body (fst (ReadHandler s' w r e')) = Body (fst (ReadHandler s w r e))
       \<and> Header (fst (ReadHandler s' w r e')) = Header (fst (ReadHandler s w r e))
       \<and> Code (fst (MetricsHandler s w r e)) = Some StatusOK
       \<and> Body (fst (MetricsHandler s w r e)) =
           Body w @ [Bytes (unlines (metrics_page (- 1) (if perr = None then 1 else 0)))]"
proof -
  obtain v x0 where p: "ParseInt val = (v, Some x0)"
    using assms(5) by (cases "ParseInt val") auto
  have nn: "x0 \<noteq> RedisNil"
    using ParseInt_not_Nil [of val] p by simp
  have i: "Int64 (val, None) = (v, Some x0)"
    using p by (simp add: Int64_def)
  have rd: "Code (fst (ReadHandler s w r e)) = Some StatusInternalServerError
       \<and> Body (fst (ReadHandler s w r e)) =
           Body w @ [JSON (StrMap [(''error'', ''Failed to read counter'')])]
       \<and> Header (fst (ReadHandler s w r e)) =
           (''Content-Type'', ''application/json'') #
             filter (\<lambda>kv. fst kv \<noteq> ''Content-Type'') (Header w)"
    using assms(1,2,3,4) i nn
    by (simp add: ReadHandler_def call_Get_def writeJSONError_def writeJSON_writer)
  have rd': "Code (fst (ReadHandler s' w r e')) = Some StatusInternalServerError
       \<and> Body (fst (ReadHandler s' w r e')) =
           Body w @ [JSON (StrMap [(''error'', ''Failed to read counter'')])]
       \<and> Header (fst (ReadHandler s' w r e')) =
           (''Content-Type'', ''application/json'') #
             filter (\<lambda>kv. fst kv \<noteq> ''Content-Type'') (Header w)"
    using assms(1,2,3,7,8)
    by (simp add: ReadHandler_def call_Get_def Int64_def writeJSONError_def writeJSON_writer)
  have m: "Code (fst (MetricsHandler s w r e)) = Some StatusOK
       \<and> Body (fst (MetricsHandler s w r e)) =
           Body w @ [Bytes (unlines (metrics_page (- 1) (if perr = None then 1 else 0)))]"
    using assms(2,3) i nn
    by (simp add: MetricsHandler_GET [OF assms(1) assms(4) assms(6)] metrics_writer)
  show ?thesis
    using rd rd' m by simp
qed

theorem unparseable_counter_witness:
  "Method (NewRequest ''GET'' ''/read'' []) = MethodGet
   \<and> Code NewRecorder = None \<and> conn NewRecorder = None
   \<and> Get (redis_client\<lparr>Get := \<lambda>ctx key st. ((''*'', None), st)\<rparr>)
        (Ctx (NewRequest ''GET'' ''/read'' [])) redisCounterKey (store (world_of (Some 42) [])) =
          ((''*'', None), store (world_of (Some 42) []))
   \<and> ParseInt ''*'' = (0, Some (NumError ''*'' ErrSyntax))
   \<and> Get (RedisClient tikky) (Ctx (NewRequest ''GET'' ''/read'' [])) redisCounterKey
        (store (world_of (Some 42) [Some (OtherError ''i/o timeout'')])) =
          (([], Some (OtherError ''i/o timeout'')), store (world_of (Some 42) []))
   \<and> Code (fst (ReadHandler
        \<lparr>RedisClient = redis_client\<lparr>Get := \<lambda>ctx key st. ((''*'', None), st)\<rparr>\<rparr>
        NewRecorder (NewRequest ''GET'' ''/read'' []) (world_of (Some 42) []))) =
          Some StatusInternalServerError
   \<and> Body (fst (ReadHandler
        \<lparr>RedisClient = redis_client\<lparr>Get := \<lambda>ctx key st. ((''*'', None), st)\<rparr>\<rparr>
        NewRecorder (NewRequest ''GET'' ''/read'' []) (world_of (Some 42) []))) =
          [JSON (StrMap [(''error'', ''Failed to read counter'')])]
   \<and> Code (fst (ReadHandler tikky NewRecorder (NewRequest ''GET'' ''/read'' [])
        (world_of (Some 42) [Some (OtherError ''i/o timeout'')]))) =
          Some StatusInternalServerError
   \<and> Body (fst (ReadHandler tikky NewRecorder (NewRequest ''GET'' ''/read'' [])
        (world_of (Some 42) [Some (OtherError ''i/o timeout'')]))) =
          [JSON (StrMap [(''error'', ''Failed to read counter'')])]
   \<and> Code (fst (MetricsHandler
        \<lparr>RedisClient = redis_client\<lparr>Get := \<lambda>ctx key st. ((''*'', None), st)\<rparr>\<rparr>
        NewRecorder (NewRequest ''GET'' ''/read'' []) (world_of (Some 42) []))) = Some StatusOK
   \<and> Body (fst (MetricsHandler
        \<lparr>RedisClient = redis_client\<lparr>Get := \<lambda>ctx key st. ((''*'', None), st)\<rparr>\<rparr>
        NewRecorder (NewRequest ''GET'' ''/read'' []) (world_of (Some 42) []))) =
          [Bytes (unlines (metrics_page (- 1) 1))]"
proof -
  let ?r = "NewRequest ''GET'' ''/read'' []"
  let ?s = "\<lparr>RedisClient = redis_client\<lparr>Get := \<lambda>ctx key st. ((''*'', None), st)\<rparr>\<rparr>"
  let ?e = "world_of (Some 42) []"
  let ?e' = "world_of (Some 42) [Some (OtherError ''i/o timeout'')]"
  have h1: "Method ?r = MethodGet"
    by (simp add: NewRequest_def)
  have h2: "Code NewRecorder = None" and h3: "conn NewRecorder = None"
    by (simp_all add: NewRecorder_def)
  have h4: "Get (RedisClient ?s) (Ctx ?r) redisCounterKey (store ?e) = ((''*'', None), store ?e)"
    by simp
  have pv: "ParseInt ''*'' = (0, Some (NumError ''*'' ErrSyntax))"
    by (simp add: ParseInt_def ParseUint_def digit_val_def)
  have h5: "snd (ParseInt ''*'') \<noteq> None"
    by (simp add: pv)
  have h6: "Ping (RedisClient ?s) (Ctx ?r) (store ?e) = ((''PONG'', None), store ?e)"
    by (simp add: model_defs)
  have h7: "Get (RedisClient tikky) (Ctx ?r) redisCounterKey (store ?e') =
              (([], Some (OtherError ''i/o timeout'')), store ?e)"
    by (simp add: model_defs)
  have h8: "OtherError ''i/o timeout'' \<noteq> RedisNil"
    by simp
  have b: "Body NewRecorder = []"
    by (simp add: NewRecorder_def)
  show ?thesis
    using unparseable_counter [OF h1 h2 h3 h4 h5 h6 h7 h8] h1 h2 h3 h4 pv h7
    by (simp add: b)
qed

subsection \<open>What a response depends on\<close>

text \<open>
  C10. For each of the four handlers, take two requests with the same method, served by
  any two servers in any two worlds (other stores, other histories of calls and logs,
  other URLs, headers, bodies and contexts). When the store's calls return the same
  results in both, the writer is left the same: the same status code, body and headers.
  The response is a function of the request's method and the store's results alone.
\<close>

theorem response_determined_by_method_and_store_results:
  assumes "Method r1 = Method r2"
  shows "(fst (Incr (RedisClient s1) (Ctx r1) redisCounterKey (store e1)) =
            fst (Incr (RedisClient s2) (Ctx r2) redisCounterKey (store e2))
          \<longrightarrow> fst (WriteHandler s1 w r1 e1) = fst (WriteHandler s2 w r2 e2))
       \<and> (fst (Get (RedisClient s1) (Ctx r1) redisCounterKey (store e1)) =
            fst (Get (RedisClient s2) (Ctx r2) redisCounterKey (store e2))
          \<longrightarrow> fst (ReadHandler s1 w r1 e1) = fst (ReadHandler s2 w r2 e2))
       \<and> (fst (Ping (RedisClient s1) (Ctx r1) (store e1)) =
            fst (Ping (RedisClient s2) (Ctx r2) (store e2))
          \<longrightarrow> fst (HealthHandler s1 w r1 e1) = fst (HealthHandler s2 w r2 e2))
       \<and> (fst (Get (RedisClient s1) (Ctx r1) redisCounterKey (store e1)) =
            fst (Get (RedisClient s2) (Ctx r2) redisCounterKey (store e2))
          \<and> fst (Ping (RedisClient s1) (Ctx r1)
                (snd (Get (RedisClient s1) (Ctx r1) redisCounterKey (store e1)))) =
            fst (Ping (RedisClient s2) (Ctx r2)
                (snd (Get (RedisClient s2) (Ctx r2) redisCounterKey (store e2))))
          \<longrightarrow> fst (MetricsHandler s1 w r1 e1) = fst (MetricsHandler s2 w r2 e2))"
proof (intro conjI impI)
  assume a: "fst (Incr (RedisClient s1) (Ctx r1) redisCounterKey (store e1)) =
             fst (Incr (RedisClient s2) (Ctx r2) redisCounterKey (store e2))"
  obtain v err t1 t2 where
    i1: "Incr (RedisClient s1) (Ctx r1) redisCounterKey (store e1) = ((v, err), t1)" and
    i2: "Incr (RedisClient s2) (Ctx r2) redisCounterKey (store e2) = ((v, err), t2)"
    using a by (metis prod.collapse)
  show "fst (WriteHandler s1 w r1 e1) = fst (WriteHandler s2 w r2 e2)"
    using assms i1 i2
    by (cases err)
       (simp_all add: WriteHandler_def call_Incr_def writeJSONError_def writeJSON_fst)
next
  assume a: "fst (Get (RedisClient s1) (Ctx r1) redisCounterKey (store e1)) =
             fst (Get (RedisClient s2) (Ctx r2) redisCounterKey (store e2))"
  obtain cmd t1 t2 where
    g1: "Get (RedisClient s1) (Ctx r1) redisCounterKey (store e1) = (cmd, t1)" and
    g2: "Get (RedisClient s2) (Ctx r2) redisCounterKey (store e2) = (cmd, t2)"
    using a by (metis prod.collapse)
  obtain val err where p: "Int64 cmd = (val, err)"
    by (metis prod.exhaust)
  show "fst (ReadHandler s1 w r1 e1) = fst (ReadHandler s2 w r2 e2)"
    using assms g1 g2 p
    by (cases "err = Some RedisNil"; cases err)
       (simp_all add: ReadHandler_def call_Get_def writeJSONError_def writeJSON_fst)
next
  assume a: "fst (Ping (RedisClient s1) (Ctx r1) (store e1)) =
             fst (Ping (RedisClient s2) (Ctx r2) (store e2))"
  obtain pong err t1 t2 where
    p1: "Ping (RedisClient s1) (Ctx r1) (store e1) = ((pong, err), t1)" and
    p2: "Ping (RedisClient s2) (Ctx r2) (store e2) = ((pong, err), t2)"
    using a by (metis prod.collapse)
  show "fst (HealthHandler s1 w r1 e1) = fst (HealthHandler s2 w r2 e2)"
    using assms p1 p2
    by (cases err)
       (simp_all add: HealthHandler_def call_Ping_def writeJSONError_def writeJSON_fst)
next
  assume a: "fst (Get (RedisClient s1) (Ctx r1) redisCounterKey (store e1)) =
             fst (Get (RedisClient s2) (Ctx r2) redisCounterKey (store e2))
          \<and> fst (Ping (RedisClient s1) (Ctx r1)
                (snd (Get (RedisClient s1) (Ctx r1) redisCounterKey (store e1)))) =
            fst (Ping (RedisClient s2) (Ctx r2)
                (snd (Get (RedisClient s2) (Ctx r2) redisCounterKey (store e2))))"
  show "fst (MetricsHandler s1 w r1 e1) = fst (MetricsHandler s2 w r2 e2)"
  proof (cases "Method r1 = MethodGet")
    case False
    then show ?thesis
      using assms by (simp add: MetricsHandler_def writeJSONError_def writeJSON_fst)
  next
    case True
    obtain cmd t1 t2 where
      g1: "Get (RedisClient s1) (Ctx r1) redisCounterKey (store e1) = (cmd, t1)" and
      g2: "Get (RedisClient s2) (Ctx r2) redisCounterKey (store e2) = (cmd, t2)"
      using a by (metis prod.collapse)
    have "fst (Ping (RedisClient s1) (Ctx r1) t1) = fst (Ping (RedisClient s2) (Ctx r2) t2)"
      using a g1 g2 by simp
    then obtain pong perr u1 u2 where
      p1: "Ping (RedisClient s1) (Ctx r1) t1 = ((pong, perr), u1)" and
      p2: "Ping (RedisClient s2) (Ctx r2) t2 = ((pong, perr), u2)"
      by (metis prod.collapse)
    have m2: "Method r2 = MethodGet"
      using True assms by simp
    show ?thesis
      by (simp only: MetricsHandler_GET [OF True g1 p1] MetricsHandler_GET [OF m2 g2 p2] fst_conv)
  qed
qed

text \<open>
  The second server of the witness answers every call from a script and keeps no
  counter; the second world has calls and log records behind it.
\<close>

theorem response_determined_by_method_and_store_results_witness:
  "Method (NewRequest ''POST'' ''/write'' []) =
     Method \<lparr>Method = ''POST'', URL = ''/write?n=5'', ReqHeader = [(''X-Trace'', ''7'')],
             ReqBody = ''{}'', Ctx = Canceled\<rparr>
   \<and> fst (Incr (RedisClient tikky) (Ctx (NewRequest ''POST'' ''/write'' [])) redisCounterKey
         (store (world_of (Some 41) []))) = (42, None)
   \<and> fst (Incr \<lparr>Incr = \<lambda>ctx key n. ((42, None), Suc n),
               Get = \<lambda>ctx key n. ((''41'', None), Suc n),
               Ping = \<lambda>ctx n. ((''PONG'', None), Suc n)\<rparr> Canceled redisCounterKey (5 :: nat)) =
         (42, None)
   \<and> fst (WriteHandler tikky NewRecorder (NewRequest ''POST'' ''/write'' [])
         (world_of (Some 41) [])) =
       fst (WriteHandler
         \<lparr>RedisClient = \<lparr>Incr = \<lambda>ctx key n. ((42, None), Suc n),
               Get = \<lambda>ctx key n. ((''41'', None), Suc n),
               Ping = \<lambda>ctx n. ((''PONG'', None), Suc n)\<rparr>\<rparr>
         NewRecorder
         \<lparr>Method = ''POST'', URL = ''/write?n=5'', ReqHeader = [(''X-Trace'', ''7'')],
           ReqBody = ''{}'', Ctx = Canceled\<rparr>
         \<lparr>store = 5, calls = [GET ''counter'', INCR ''counter'', PING],
           logs = [(''Failed to read redis counter'', OtherError ''EOF'')]\<rparr>)
   \<and> Method (NewRequest ''GET'' ''/read'' []) =
     Method \<lparr>Method = ''GET'', URL = ''/metrics'', ReqHeader = [(''Accept'', ''text/plain'')],
             ReqBody = ''ignored'', Ctx = Canceled\<rparr>
   \<and> fst (Get (RedisClient tikky) (Ctx (NewRequest ''GET'' ''/read'' [])) redisCounterKey
         (store (world_of (Some 41) []))) = (''41'', None)
   \<and> fst (Ping (RedisClient tikky) (Ctx (NewRequest ''GET'' ''/read'' []))
         (store (world_of (Some 41) []))) = (''PONG'', None)
   \<and> fst (ReadHandler tikky NewRecorder (NewRequest ''GET'' ''/read'' [])
         (world_of (Some 41) [])) =
       fst (ReadHandler
         \<lparr>RedisClient = \<lparr>Incr = \<lambda>ctx key n. ((42, None), Suc n),
               Get = \<lambda>ctx key n. ((''41'', None), Suc n),
               Ping = \<lambda>ctx n. ((''PONG'', None), Suc n)\<rparr>\<rparr>
         NewRecorder
         \<lparr>Method = ''GET'', URL = ''/metrics'', ReqHeader = [(''Accept'', ''text/plain'')],
           ReqBody = ''ignored'', Ctx = Canceled\<rparr>
         \<lparr>store = 5, calls = [GET ''counter'', INCR ''counter'', PING],
           logs = [(''Failed to read redis counter'', OtherError ''EOF'')]\<rparr>)
   \<and> fst (HealthHandler tikky NewRecorder (NewRequest ''GET'' ''/read'' [])
         (world_of (Some 41) [])) =
       fst (HealthHandler
         \<lparr>RedisClient = \<lparr>Incr = \<lambda>ctx key n. ((42, None), Suc n),
               Get = \<lambda>ctx key n. ((''41'', None), Suc n),
               Ping = \<lambda>ctx n. ((''PONG'', None), Suc n)\<rparr>\<rparr>
         NewRecorder
         \<lparr>Method = ''GET'', URL = ''/metrics'', ReqHeader = [(''Accept'', ''text/plain'')],
           ReqBody = ''ignored'', Ctx = Canceled\<rparr>
         \<lparr>store = 5, calls = [GET ''counter'', INCR ''counter'', PING],
           logs = [(''Failed to read redis counter'', OtherError ''EOF'')]\<rparr>)
   \<and> fst (MetricsHandler tikky NewRecorder (NewRequest ''GET'' ''/read'' [])
         (world_of (Some 41) [])) =
       fst (MetricsHandler
         \<lparr>RedisClient = \<lparr>Incr = \<lambda>ctx key n. ((42, None), Suc n),
               Get = \<lambda>ctx key n. ((''41'', None), Suc n),
               Ping = \<lambda>ctx n. ((''PONG'', None), Suc n)\<rparr>\<rparr>
         NewRecorder
         \<lparr>Method = ''GET'', URL = ''/metrics'', ReqHeader = [(''Accept'', ''text/plain'')],
           ReqBody = ''ignored'', Ctx = Canceled\<rparr>
         \<lparr>store = 5, calls = [GET ''counter'', INCR ''counter'', PING],
           logs = [(''Failed to read redis counter'', OtherError ''EOF'')]\<rparr>)"
proof -
  let ?p1 = "NewRequest ''POST'' ''/write'' []"
  let ?p2 = "\<lparr>Method = ''POST'', URL = ''/write?n=5'', ReqHeader = [(''X-Trace'', ''7'')],
              ReqBody = ''{}'', Ctx = Canceled\<rparr>"
  let ?g1 = "NewRequest ''GET'' ''/read'' []"
  let ?g2 = "\<lparr>Method = ''GET'', URL = ''/metrics'', ReqHeader = [(''Accept'', ''text/plain'')],
              ReqBody = ''ignored'', Ctx = Canceled\<rparr>"
  let ?c2 = "\<lparr>Incr = \<lambda>ctx key n. ((42, None), Suc n),
               Get = \<lambda>ctx key n. ((''41'', None), Suc n),
               Ping = \<lambda>ctx n. ((''PONG'', None), Suc n)\<rparr> :: nat Client"
  let ?s2 = "\<lparr>RedisClient = ?c2\<rparr>"
  let ?e1 = "world_of (Some 41) []"
  let ?e2 = "\<lparr>store = 5 :: nat, calls = [GET ''counter'', INCR ''counter'', PING],
              logs = [(''Failed to read redis counter'', OtherError ''EOF'')]\<rparr>"
  have mp: "Method ?p1 = Method ?p2" and mg: "Method ?g1 = Method ?g2"
    by (simp_all add: NewRequest_def)
  have i1: "fst (Incr (RedisClient tikky) (Ctx ?p1) redisCounterKey (store ?e1)) = (42, None)"
    by (simp add: model_defs)
  have i2: "fst (Incr ?c2 Canceled redisCounterKey (5 :: nat)) = (42, None)"
    by simp
  have g1: "fst (Get (RedisClient tikky) (Ctx ?g1) redisCounterKey (store ?e1)) = (''41'', None)"
    by (simp add: model_defs FormatInt_def dec_digits.simps digit_chars_def)
  have g1': "snd (Get (RedisClient tikky) (Ctx ?g1) redisCounterKey (store ?e1)) = store ?e1"
    by (simp add: model_defs)
  have q1: "fst (Ping (RedisClient tikky) (Ctx ?g1) (store ?e1)) = (''PONG'', None)"
    by (simp add: model_defs)
  have hi: "fst (Incr (RedisClient tikky) (Ctx ?p1) redisCounterKey (store ?e1)) =
            fst (Incr (RedisClient ?s2) (Ctx ?p2) redisCounterKey (store ?e2))"
    by (simp add: i1)
  have hg: "fst (Get (RedisClient tikky) (Ctx ?g1) redisCounterKey (store ?e1)) =
            fst (Get (RedisClient ?s2) (Ctx ?g2) redisCounterKey (store ?e2))"
    by (simp add: g1)
  have hp: "fst (Ping (RedisClient tikky) (Ctx ?g1) (store ?e1)) =
            fst (Ping (RedisClient ?s2) (Ctx ?g2) (store ?e2))"
    by (simp add: q1)
  have hp': "fst (Ping (RedisClient tikky) (Ctx ?g1)
               (snd (Get (RedisClient tikky) (Ctx ?g1) redisCounterKey (store ?e1)))) =
             fst (Ping (RedisClient ?s2) (Ctx ?g2)
               (snd (Get (RedisClient ?s2) (Ctx ?g2) redisCounterKey (store ?e2))))"
    by (simp add: g1' q1)
  note post = response_determined_by_method_and_store_results
                [OF mp, of tikky ?e1 ?s2 ?e2 NewRecorder]
  note get = response_determined_by_method_and_store_results
                [OF mg, of tikky ?e1 ?s2 ?e2 NewRecorder]
  have w: "fst (WriteHandler tikky NewRecorder ?p1 ?e1) = fst (WriteHandler ?s2 NewRecorder ?p2 ?e2)"
    using post hi by blast
  have r: "fst (ReadHandler tikky NewRecorder ?g1 ?e1) = fst (ReadHandler ?s2 NewRecorder ?g2 ?e2)"
    using get hg by blast
  have h: "fst (HealthHandler tikky NewRecorder ?g1 ?e1) = fst (HealthHandler ?s2 NewRecorder ?g2 ?e2)"
    using get hp by blast
  have m: "fst (MetricsHandler tikky NewRecorder ?g1 ?e1) = fst (MetricsHandler ?s2 NewRecorder ?g2 ?e2)"
    using get hg hp' by blast
  show ?thesis
    using mp mg i1 i2 g1 q1 w r h m by blast
qed

subsection \<open>Order of the writes and a failing connection\<close>

text \<open>
  For every response of the four handlers the \<open>Content-Type\<close> header
  (\<open>application/json\<close> for a JSON body, the text exposition type for the metrics page)
  is set first, then the status is committed, then the body is written, and a write that
  fails leaves the committed status as it is when the write succeeds. Every response
  written by \<open>writeJSON\<close> (all but the metrics page) logs the failed write, and the log
  record is the failure's only effect on the world.
\<close>

lemma response_order_and_json_write_failure:
  assumes "mux path = Some H" and "Code w = None"
  shows "(\<exists>ct st p.
            trace (fst (H s w r e)) =
              trace w @ [SetHeader ''Content-Type'' ct, WroteHeader st,
                         (case conn w of None \<Rightarrow> Wrote p | Some x \<Rightarrow> WriteFailed p x)]
          \<and> ct = (case p of JSON j \<Rightarrow> ''application/json''
                           | Bytes b \<Rightarrow> ''text/plain; version=0.0.4; charset=utf-8'')
          \<and> Code (fst (H s w r e)) = Some st)
       \<and> Code (fst (H s (w\<lparr>conn := Some x\<rparr>) r e)) = Code (fst (H s (w\<lparr>conn := None\<rparr>) r e))
       \<and> (\<not> (path = ''/metrics'' \<and> Method r = MethodGet) \<longrightarrow>
            snd (H s (w\<lparr>conn := Some x\<rparr>) r e) =
              slog_Error ''Failed to write JSON response'' x (snd (H s (w\<lparr>conn := None\<rparr>) r e)))"
proof (cases "path = ''/metrics'' \<and> Method r = MethodGet")
  case True
  then have H: "H = MetricsHandler"
    using assms(1) by (simp add: mux_def)
  obtain cmd st1 where g: "Get (RedisClient s) (Ctx r) redisCounterKey (store e) = (cmd, st1)"
    by (metis prod.exhaust)
  obtain pong perr st2 where p: "Ping (RedisClient s) (Ctx r) st1 = ((pong, perr), st2)"
    by (metis prod.exhaust)
  note closed = MetricsHandler_GET [OF conjunct2 [OF True] g p]
  show ?thesis
    using True assms(2)
    by (simp add: H closed metrics_writer split: option.splits)
next
  case False
  have "\<exists>st v e'. \<forall>w. H s w r e = writeJSON w st v e'"
    using assms(1) False
      WriteHandler_writeJSON [of s r e] ReadHandler_writeJSON [of s r e]
      HealthHandler_writeJSON [of s r e] MetricsHandler_writeJSON [of r s e]
    by (auto simp add: mux_def split: if_splits)
  then obtain st v e' where H: "\<And>w. H s w r e = writeJSON w st v e'"
    by blast
  show ?thesis
    using False assms(2)
    by (auto simp add: H writeJSON_writer writeJSON_world split: option.splits)
qed

text \<open>
  C8. The order of the writes and the unchanged status hold (see above), and the failed
  write of a body is to be logged for every response of the four handlers.
  \<open>MetricsHandler\<close> does not do so for the metrics page: it drops the result of
  \<open>w.Write\<close>. With a healthy store holding 7 and a broken connection, a GET request to
  \<open>/metrics\<close> commits status 200, fails to write the page (the trace ends with the
  failed write, the body stays empty) and leaves the log empty. On the same broken
  connection the sibling path logs: the 405 of \<open>/metrics\<close> to a POST request, written by
  \<open>writeJSON\<close>, leaves the record \<open>Failed to write JSON response\<close>.
\<close>

theorem MetricsHandler_write_failure_not_logged:
  "trace (fst (MetricsHandler tikky (NewRecorder\<lparr>conn := Some (OtherError ''broken pipe'')\<rparr>)
      (NewRequest ''GET'' ''/metrics'' []) (world_of (Some 7) []))) =
     [SetHeader ''Content-Type'' ''text/plain; version=0.0.4; charset=utf-8'',
      WroteHeader StatusOK,
      WriteFailed (Bytes (unlines (metrics_page 7 1))) (OtherError ''broken pipe'')]
   \<and> Code (fst (MetricsHandler tikky (NewRecorder\<lparr>conn := Some (OtherError ''broken pipe'')\<rparr>)
      (NewRequest ''GET'' ''/metrics'' []) (world_of (Some 7) []))) = Some StatusOK
   \<and> Body (fst (MetricsHandler tikky (NewRecorder\<lparr>conn := Some (OtherError ''broken pipe'')\<rparr>)
      (NewRequest ''GET'' ''/metrics'' []) (world_of (Some 7) []))) = []
   \<and> logs (snd (MetricsHandler tikky (NewRecorder\<lparr>conn := Some (OtherError ''broken pipe'')\<rparr>)
      (NewRequest ''GET'' ''/metrics'' []) (world_of (Some 7) []))) = []
   \<and> logs (snd (MetricsHandler tikky (NewRecorder\<lparr>conn := Some (OtherError ''broken pipe'')\<rparr>)
      (NewRequest ''POST'' ''/metrics'' []) (world_of (Some 7) []))) =
       [(''Failed to write JSON response'', OtherError ''broken pipe'')]"
proof -
  let ?r = "NewRequest ''GET'' ''/metrics'' []"
  let ?e = "world_of (Some 7) []"
  let ?w = "NewRecorder\<lparr>conn := Some (OtherError ''broken pipe'')\<rparr>"
  have h1: "Method ?r = MethodGet"
    by (simp add: NewRequest_def)
  have h2: "Get (RedisClient tikky) (Ctx ?r) redisCounterKey (store ?e) = ((''7'', None), store ?e)"
    by (simp add: model_defs FormatInt_def dec_digits.simps digit_chars_def)
  have h3: "Ping (RedisClient tikky) (Ctx ?r) (store ?e) = ((''PONG'', None), store ?e)"
    by (simp add: model_defs)
  have h4: "Code ?w = None"
    by (simp add: NewRecorder_def)
  have i: "Int64 (''7'', None) = (7, None)"
    by (simp add: Int64_def ParseInt_def ParseUint_def digit_val_def)
  have get: "trace (fst (MetricsHandler tikky ?w ?r ?e)) =
     [SetHeader ''Content-Type'' ''text/plain; version=0.0.4; charset=utf-8'',
      WroteHeader StatusOK,
      WriteFailed (Bytes (unlines (metrics_page 7 1))) (OtherError ''broken pipe'')]
   \<and> Code (fst (MetricsHandler tikky ?w ?r ?e)) = Some StatusOK
   \<and> Body (fst (MetricsHandler tikky ?w ?r ?e)) = []
   \<and> logs (snd (MetricsHandler tikky ?w ?r ?e)) = []"
    by (simp add: MetricsHandler_GET [OF h1 h2 h3] metrics_writer [OF h4] i)
       (simp add: NewRecorder_def world_of_def)
  have post: "logs (snd (MetricsHandler tikky ?w (NewRequest ''POST'' ''/metrics'' []) ?e)) =
       [(''Failed to write JSON response'', OtherError ''broken pipe'')]"
    by (simp add: MetricsHandler_def NewRequest_def writeJSONError_def writeJSON_world
          slog_Error_def)
       (simp add: world_of_def)
  show ?thesis
    using get post by simp
qed

subsection \<open>Sequential increments\<close>

text \<open>
  C6. Against the store, with the counter at \<open>p\<close> when the sequence begins (an absent
  key counting as 0), when \<open>N\<close> POST requests to \<open>/write\<close> are served one after the
  other and each is answered with status 200, the body of the \<open>k\<close>-th answer is
  \<open>{"value": p + k}\<close> for every \<open>k\<close> from 1 to \<open>N\<close>; the sum is that of the
  integers, it does not wrap around.
\<close>

theorem sequential_writes_count:
  assumes "\<forall>r \<in> set rs. Method r = MethodPost"
    and "\<forall>w \<in> set (fst (serve_writes tikky rs e)). Code w = Some StatusOK"
    and "1 \<le> k" and "k \<le> length rs"
  shows "Body (fst (serve_writes tikky rs e) ! (k - 1)) =
           [JSON (IntMap [(''value'', counter_of e + of_nat k)])]
       \<and> sint (counter_of e + of_nat k) = sint (counter_of e) + int k"
proof -
  have "k - 1 < length rs" and "Suc (k - 1) = k"
    using assms(3,4) by simp_all
  then show ?thesis
    using serve_writes_values [OF assms(1) assms(2), of "k - 1"] by simp
qed

theorem sequential_writes_count_witness:
  "Method (NewRequest ''POST'' ''/write'' []) = MethodPost
   \<and> map Code (fst (serve_writes tikky
        [NewRequest ''POST'' ''/write'' [], NewRequest ''POST'' ''/write'' [],
         NewRequest ''POST'' ''/write'' []] (world_of None []))) =
       [Some StatusOK, Some StatusOK, Some StatusOK]
   \<and> (1 :: nat) \<le> 3
   \<and> 3 \<le> length [NewRequest ''POST'' ''/write'' [], NewRequest ''POST'' ''/write'' [],
         NewRequest ''POST'' ''/write'' []]
   \<and> counter_of (world_of None []) = 0
   \<and> Body (fst (serve_writes tikky
        [NewRequest ''POST'' ''/write'' [], NewRequest ''POST'' ''/write'' [],
         NewRequest ''POST'' ''/write'' []] (world_of None [])) ! (3 - 1)) =
       [JSON (IntMap [(''value'', 3)])]
   \<and> sint (3 :: int64) = 0 + 3"
proof -
  let ?r = "NewRequest ''POST'' ''/write'' []"
  let ?e = "world_of None []"
  have m: "Method ?r = MethodPost"
    by (simp add: NewRequest_def)
  have c: "map Code (fst (serve_writes tikky [?r, ?r, ?r] ?e)) =
             [Some StatusOK, Some StatusOK, Some StatusOK]"
    by (simp add: split_beta WriteHandler_def call_Incr_def writeJSON_writer writeJSON_world
          model_defs)
  have h1: "\<forall>r \<in> set [?r, ?r, ?r]. Method r = MethodPost"
    using m by simp
  have "\<forall>c \<in> set (map Code (fst (serve_writes tikky [?r, ?r, ?r] ?e))). c = Some StatusOK"
    by (simp only: c) simp
  then have h2: "\<forall>w \<in> set (fst (serve_writes tikky [?r, ?r, ?r] ?e)). Code w = Some StatusOK"
    by simp
  have h3: "(1 :: nat) \<le> 3" and h4: "3 \<le> length [?r, ?r, ?r]"
    by simp_all
  have z: "counter_of ?e = 0"
    by (simp add: counter_of_def world_of_def)
  show ?thesis
    using sequential_writes_count [OF h1 h2 h3 h4] m c z
    by simp
qed

end
